theory Spec2Isabelle
  imports Complex_Main "HOL-Library.Word"
begin

section \<open>WaterMarker: batch watermarking of a directory of photographs\<close>

text \<open>
  A shallow embedding of \<^verbatim>\<open>WaterMarker.go\<close>. The program reads seven flags, checks
  the watermark file and the two directories, decodes the watermark once, builds one
  uniform opacity mask, lists the source directory and starts one goroutine per entry.
  A goroutine skips an entry that is not a \<^verbatim>\<open>.jpg\<close> or \<^verbatim>\<open>.jpeg\<close>; otherwise it decodes
  the photo, resizes the watermark, computes the offset, composites and saves.

  What the operating system and the libraries do (file system, codecs, resizer) is a
  parameter of the model, the record \<open>World\<close>. \<^verbatim>\<open>log.Fatal\<close> and \<^verbatim>\<open>os.Exit\<close> end the
  process: every function that can reach one returns a sum whose left side is the exit.
\<close>

subsection \<open>Geometry: image.Point and image.Rectangle\<close>

type_synonym Point = "int \<times> int"

record Rectangle =
  Min_pt :: Point
  Max_pt :: Point

definition Rect_Dx :: "Rectangle \<Rightarrow> int" where
  "Rect_Dx r = fst (Max_pt r) - fst (Min_pt r)"

definition Rect_Dy :: "Rectangle \<Rightarrow> int" where
  "Rect_Dy r = snd (Max_pt r) - snd (Min_pt r)"

definition Point_Add :: "Point \<Rightarrow> Point \<Rightarrow> Point" where
  "Point_Add p q = (fst p + fst q, snd p + snd q)"

definition Point_Sub :: "Point \<Rightarrow> Point \<Rightarrow> Point" where
  "Point_Sub p q = (fst p - fst q, snd p - snd q)"

definition Rect_Add :: "Rectangle \<Rightarrow> Point \<Rightarrow> Rectangle" where
  "Rect_Add r p = \<lparr>Min_pt = Point_Add (Min_pt r) p, Max_pt = Point_Add (Max_pt r) p\<rparr>"

definition Rect_Empty :: "Rectangle \<Rightarrow> bool" where
  "Rect_Empty r = (fst (Min_pt r) \<ge> fst (Max_pt r) \<or> snd (Min_pt r) \<ge> snd (Max_pt r))"

definition ZR :: Rectangle where
  "ZR = \<lparr>Min_pt = (0, 0), Max_pt = (0, 0)\<rparr>"

definition Rect_Intersect :: "Rectangle \<Rightarrow> Rectangle \<Rightarrow> Rectangle" where
  "Rect_Intersect r s =
     (let r' = \<lparr>Min_pt = (max (fst (Min_pt r)) (fst (Min_pt s)), max (snd (Min_pt r)) (snd (Min_pt s))),
                Max_pt = (min (fst (Max_pt r)) (fst (Max_pt s)), min (snd (Max_pt r)) (snd (Max_pt s)))\<rparr>
      in if Rect_Empty r' then ZR else r')"

definition Point_In :: "Point \<Rightarrow> Rectangle \<Rightarrow> bool" where
  "Point_In p r =
     (fst (Min_pt r) \<le> fst p \<and> fst p < fst (Max_pt r) \<and>
      snd (Min_pt r) \<le> snd p \<and> snd p < snd (Max_pt r))"

subsection \<open>Pixels and pixel buffers\<close>

text \<open>A colour with 8-bit channels, as \<^verbatim>\<open>color.RGBA\<close>.\<close>

record RGBA =
  cR :: "8 word"
  cG :: "8 word"
  cB :: "8 word"
  cA :: "8 word"

definition transparent :: RGBA where
  "transparent = \<lparr>cR = 0, cG = 0, cB = 0, cA = 0\<rparr>"

text \<open>
  A pixel buffer is a bounding rectangle and a colour for every point. Only the points
  inside the bounds belong to the buffer; \<open>At\<close> reads the zero colour elsewhere, as the
  \<^verbatim>\<open>At\<close> methods of Go's image types do.
\<close>

record PixelBuffer =
  Bounds :: Rectangle
  Pix :: "Point \<Rightarrow> RGBA"

definition At :: "PixelBuffer \<Rightarrow> Point \<Rightarrow> RGBA" where
  "At img p = (if Point_In p (Bounds img) then Pix img p else transparent)"

type_synonym bytes = "8 word list"

subsection \<open>Configuration: the flags (lines 23-31)\<close>

text \<open>
  \<^verbatim>\<open>*paramOpacity\<close> is a Go \<^verbatim>\<open>int\<close>, 64 bits wide on the platforms the program is
  built for. \<^verbatim>\<open>*paramScale\<close> is a \<^verbatim>\<open>float64\<close>; the model never computes with it, so
  its type is the parameter \<open>'f\<close>.
\<close>

record 'f Config =
  paramOpacity :: "64 word"
  paramLocation :: string
  paramScale :: 'f
  paramWatermark :: string
  paramSourceDir :: string
  paramTargetDir :: string
  paramForce :: bool

subsection \<open>The outside world\<close>

datatype StatResult = StatOK | StatNotExist | StatOtherError

text \<open>
  Every call that leaves the program: \<^verbatim>\<open>os.Stat\<close>, \<^verbatim>\<open>os.Open\<close> (the bytes of the file or
  an error text), the two decoders, \<^verbatim>\<open>ioutil.ReadDir\<close> (the entries' names, in the order
  listed), \<^verbatim>\<open>os.Create\<close>, \<^verbatim>\<open>jpeg.Encode\<close> at a quality, \<^verbatim>\<open>path.Join\<close>,
  \<^verbatim>\<open>resize.Resize\<close> with the nearest-neighbour filter, and the floating-point
  expression \<^verbatim>\<open>uint(watermarkScale*float64(imgSize.Dy()))\<close> of line 104.
\<close>

record 'f World =
  Stat :: "string \<Rightarrow> StatResult"
  Open :: "string \<Rightarrow> string + bytes"
  jpeg_Decode :: "bytes \<Rightarrow> string + PixelBuffer"
  png_Decode :: "bytes \<Rightarrow> string + PixelBuffer"
  ReadDir :: "string \<Rightarrow> string + string list"
  Create :: "string \<Rightarrow> string + unit"
  jpeg_Encode :: "PixelBuffer \<Rightarrow> nat \<Rightarrow> string + bytes"
  path_Join :: "string \<Rightarrow> string \<Rightarrow> string"
  resize_Resize :: "nat \<Rightarrow> nat \<Rightarrow> PixelBuffer \<Rightarrow> PixelBuffer"
  scaled_height :: "'f \<Rightarrow> int \<Rightarrow> nat"

subsection \<open>Fatal exits\<close>

datatype draw_error = OutOfBounds Point

datatype fatal =
    WatermarkNotExist string
  | WatermarkNotPNG string
  | SourceDirNotExist string
  | OpenFailed string
  | DecodeJpegFailed string
  | DecodePngFailed string
  | UnsupportedType string
  | ReadDirFailed string
  | CreateFailed string
  | EncodeFailed string
  | Panic draw_error

subsection \<open>strings.HasSuffix\<close>

definition HasSuffix :: "string \<Rightarrow> string \<Rightarrow> bool" where
  "HasSuffix s suffix =
     (length s \<ge> length suffix \<and> drop (length s - length suffix) s = suffix)"

subsection \<open>The opacity mask (line 84)\<close>

text \<open>
  \<^verbatim>\<open>color.Alpha{uint8(*paramOpacity * 255)}\<close>: the product is taken in \<^verbatim>\<open>int\<close>, and the
  conversion to \<^verbatim>\<open>uint8\<close> keeps its low eight bits.
\<close>

definition OpacityMask :: "64 word \<Rightarrow> 8 word" where
  "OpacityMask opacity = ucast (opacity * 255)"

subsection \<open>getFiles, openImage, saveImage (lines 131-176)\<close>

definition getFiles :: "'f World \<Rightarrow> string \<Rightarrow> fatal + string list" where
  "getFiles w dir =
     (case ReadDir w dir of
        Inl err \<Rightarrow> Inl (ReadDirFailed err)
      | Inr files \<Rightarrow> Inr files)"

definition openImage :: "'f World \<Rightarrow> string \<Rightarrow> string \<Rightarrow> fatal + PixelBuffer" where
  "openImage w fname ftype =
     (case Open w fname of
        Inl err \<Rightarrow> Inl (OpenFailed err)
      | Inr inputfile \<Rightarrow>
          if ftype = ''jpeg'' then
            (case jpeg_Decode w inputfile of
               Inl err \<Rightarrow> Inl (DecodeJpegFailed err)
             | Inr srcimage \<Rightarrow> Inr srcimage)
          else if ftype = ''png'' then
            (case png_Decode w inputfile of
               Inl err \<Rightarrow> Inl (DecodePngFailed err)
             | Inr srcimage \<Rightarrow> Inr srcimage)
          else Inl (UnsupportedType ftype))"

text \<open>The result of \<open>saveImage\<close> is the file it wrote: its path and its bytes.\<close>

definition saveImage :: "'f World \<Rightarrow> PixelBuffer \<Rightarrow> string \<Rightarrow> string \<Rightarrow> fatal + (string \<times> bytes)" where
  "saveImage w img pname fname =
     (let fpath = path_Join w pname fname in
      case Create w fpath of
        Inl err \<Rightarrow> Inl (CreateFailed err)
      | Inr _ \<Rightarrow>
          (case jpeg_Encode w img 95 of
             Inl err \<Rightarrow> Inl (EncodeFailed err)
           | Inr data \<Rightarrow> Inr (fpath, data)))"

subsection \<open>Compositing (lines 107, 115 and 116)\<close>

text \<open>
  The task allocates a canvas with \<^verbatim>\<open>image.NewRGBA\<close>, copies the photo into it with
  \<^verbatim>\<open>draw.Draw\<close> and draws the watermark over it with \<^verbatim>\<open>draw.DrawMask\<close>. These three
  functions belong to Go's standard library and are not part of the repository, so the
  definitions of this subsection follow section 4.2 of the specification.
\<close>

text \<open>
  Modelled from the spec: \<^verbatim>\<open>image.NewRGBA\<close> is missing; "allocates an output buffer sized
  exactly to base's bounds". A fresh buffer holds the zero colour.
\<close>

definition NewRGBA :: "Rectangle \<Rightarrow> PixelBuffer" where
  "NewRGBA r = \<lparr>Bounds = r, Pix = (\<lambda>p. transparent)\<rparr>"

text \<open>
  Modelled from the spec: the store of one pixel is missing; "no error, no
  out-of-bounds write". A store outside the bounds of the buffer is the failure, so that
  a drawing loop that leaves the buffer does not pass unnoticed.
\<close>

definition set_pixel :: "PixelBuffer \<Rightarrow> Point \<Rightarrow> RGBA \<Rightarrow> draw_error + PixelBuffer" where
  "set_pixel buf p c =
     (if Point_In p (Bounds buf) then Inr (buf\<lparr>Pix := (Pix buf)(p := c)\<rparr>)
      else Inl (OutOfBounds p))"

text \<open>The points of a rectangle, row by row.\<close>

definition points :: "Rectangle \<Rightarrow> Point list" where
  "points r =
     concat (map (\<lambda>y. map (\<lambda>x. (x, y)) [fst (Min_pt r) .. fst (Max_pt r) - 1])
                 [snd (Min_pt r) .. snd (Max_pt r) - 1])"

text \<open>
  The drawing loop: at every point of the list, in order, the new colour is computed
  from the point and the colour stored there, and stored. The first failing store ends
  the loop.
\<close>

fun draw_loop :: "(Point \<Rightarrow> RGBA \<Rightarrow> RGBA) \<Rightarrow> Point list \<Rightarrow> PixelBuffer \<Rightarrow> draw_error + PixelBuffer" where
  "draw_loop f [] buf = Inr buf"
| "draw_loop f (p # ps) buf =
     (case set_pixel buf p (f p (Pix buf p)) of
        Inl e \<Rightarrow> Inl e
      | Inr buf' \<Rightarrow> draw_loop f ps buf')"

text \<open>
  Modelled from the spec: the blending arithmetic of \<^verbatim>\<open>draw.DrawMask\<close> is missing;
  "effective alpha = watermarkAlpha * maskValue / 255" and "result = src*srcAlpha +
  dst*(1-srcAlpha)", on 8-bit channels with the divisions rounded down. The alpha channel
  is blended like a colour channel whose source value is full scale.
\<close>

definition effective_alpha :: "8 word \<Rightarrow> 8 word \<Rightarrow> nat" where
  "effective_alpha watermarkAlpha maskValue = unat watermarkAlpha * unat maskValue div 255"

definition blend_channel :: "8 word \<Rightarrow> nat \<Rightarrow> 8 word \<Rightarrow> 8 word" where
  "blend_channel src srcAlpha dst =
     of_nat ((unat src * srcAlpha + unat dst * (255 - srcAlpha)) div 255)"

definition over :: "8 word \<Rightarrow> RGBA \<Rightarrow> RGBA \<Rightarrow> RGBA" where
  "over maskValue src dst =
     (let a = effective_alpha (cA src) maskValue in
      \<lparr>cR = blend_channel (cR src) a (cR dst),
       cG = blend_channel (cG src) a (cG dst),
       cB = blend_channel (cB src) a (cB dst),
       cA = blend_channel 255 a (cA dst)\<rparr>)"

text \<open>
  Modelled from the spec: \<^verbatim>\<open>draw.Draw\<close> with \<^verbatim>\<open>draw.Src\<close> is missing; "Step 1: copies
  base into the output buffer at identity offset, full opacity, no blending". Every
  point of the base that lies in the canvas gets the colour the base has at that point.
\<close>

definition copy_base :: "PixelBuffer \<Rightarrow> PixelBuffer \<Rightarrow> draw_error + PixelBuffer" where
  "copy_base canvas base =
     draw_loop (\<lambda>p dst. Pix base p)
       (points (Rect_Intersect (Bounds base) (Bounds canvas))) canvas"

text \<open>
  Modelled from the spec: \<^verbatim>\<open>draw.DrawMask\<close> with \<^verbatim>\<open>draw.Over\<close> is missing; "Step 2:
  draws watermark into the output buffer at offset, blended using over compositing",
  and "drawing outside the output buffer's bounds is clipped silently". The watermark's
  rectangle is moved by the offset and cut to the bounds of the canvas; the pixel drawn
  at a point \<open>p\<close> is the watermark's pixel at \<open>p - offset\<close>. The specification gives
  the step no destination rectangle, and the model has none: the call of line 116 passes
  \<^verbatim>\<open>imgSize.Add(watermarkOffset)\<close>, and what the library does with it is not part of
  this model.
\<close>

definition draw_watermark :: "PixelBuffer \<Rightarrow> PixelBuffer \<Rightarrow> 8 word \<Rightarrow> Point \<Rightarrow> draw_error + PixelBuffer" where
  "draw_watermark canvas watermark opacityMask offset =
     draw_loop (\<lambda>p dst. over opacityMask (Pix watermark (Point_Sub p offset)) dst)
       (points (Rect_Intersect (Rect_Add (Bounds watermark) offset) (Bounds canvas))) canvas"

text \<open>
  Modelled from the spec: the contract \<open>compose(base, watermark, mask, offset)\<close> of
  section 4.2, for the three library calls of lines 107, 115 and 116.
\<close>

definition compose :: "PixelBuffer \<Rightarrow> PixelBuffer \<Rightarrow> 8 word \<Rightarrow> Point \<Rightarrow> draw_error + PixelBuffer" where
  "compose base watermark opacityMask offset =
     (case copy_base (NewRGBA (Bounds base)) base of
        Inl e \<Rightarrow> Inl e
      | Inr canvas \<Rightarrow> draw_watermark canvas watermark opacityMask offset)"

subsection \<open>The task: the goroutine of lines 93-119\<close>

datatype TaskResult =
    Skipped string
  | Saved string bytes
  | TaskFatal fatal

text \<open>Lines 108-113. A \<^verbatim>\<open>var\<close> of type \<^verbatim>\<open>image.Point\<close> starts as \<open>(0, 0)\<close>.\<close>

definition watermarkOffset :: "string \<Rightarrow> Rectangle \<Rightarrow> Rectangle \<Rightarrow> Point" where
  "watermarkOffset watermarkLocation imgSize wmSize =
     (if watermarkLocation = ''left'' then
        (0, snd (Max_pt imgSize) - snd (Max_pt wmSize))
      else if watermarkLocation = ''right'' then
        (fst (Max_pt imgSize) - fst (Max_pt wmSize), snd (Max_pt imgSize) - snd (Max_pt wmSize))
      else (0, 0))"

text \<open>The notice of line 96.\<close>

definition skip_notice :: "string \<Rightarrow> string" where
  "skip_notice name =
     ''Skipping photo '' @ [CHR 0x27] @ name @ [CHR 0x27] @
     '' because it is not a .jpg or .jpeg'' @ [CHR 0x0A]"

text \<open>Lines 100-118: what the goroutine does with an entry it has not skipped.\<close>

definition process_photo ::
  "'f World \<Rightarrow> string \<Rightarrow> PixelBuffer \<Rightarrow> 8 word \<Rightarrow> string \<Rightarrow> 'f \<Rightarrow> string \<Rightarrow> string \<Rightarrow> TaskResult" where
  "process_photo w name watermark opacityMask watermarkLocation watermarkScale sourceDir targetDir =
     (case openImage w (path_Join w sourceDir name) ''jpeg'' of
        Inl e \<Rightarrow> TaskFatal e
      | Inr srcImage \<Rightarrow>
          (let imgSize = Bounds srcImage;
               scaledWatermark =
                 resize_Resize w 0 (scaled_height w watermarkScale (Rect_Dy imgSize)) watermark;
               wmSize = Bounds scaledWatermark;
               offset = watermarkOffset watermarkLocation imgSize wmSize
           in case compose srcImage scaledWatermark opacityMask offset of
                Inl e \<Rightarrow> TaskFatal (Panic e)
              | Inr canvas \<Rightarrow>
                  (case saveImage w canvas targetDir name of
                     Inl e \<Rightarrow> TaskFatal e
                   | Inr (fpath, data) \<Rightarrow> Saved fpath data)))"

text \<open>The goroutine's function, with the parameters of line 93.\<close>

definition task ::
  "'f World \<Rightarrow> string \<Rightarrow> PixelBuffer \<Rightarrow> 8 word \<Rightarrow> string \<Rightarrow> 'f \<Rightarrow> string \<Rightarrow> string \<Rightarrow> TaskResult" where
  "task w name watermark opacityMask watermarkLocation watermarkScale sourceDir targetDir =
     (if \<not> HasSuffix name ''.jpg'' \<and> \<not> HasSuffix name ''.jpeg'' then Skipped (skip_notice name)
      else process_photo w name watermark opacityMask watermarkLocation watermarkScale sourceDir targetDir)"

text \<open>
  The \<^verbatim>\<open>go\<close> statement with the arguments of line 119: the fourth one, received as
  \<open>watermarkLocation\<close>, is \<^verbatim>\<open>*paramWatermark\<close>.
\<close>

definition go_task :: "'f World \<Rightarrow> 'f Config \<Rightarrow> PixelBuffer \<Rightarrow> 8 word \<Rightarrow> string \<Rightarrow> TaskResult" where
  "go_task w cfg watermark opacityMask file =
     task w file watermark opacityMask (paramWatermark cfg) (paramScale cfg)
       (paramSourceDir cfg) (paramTargetDir cfg)"

text \<open>
  The offset a task of a run computes for a photo and a resized watermark of the given
  bounds: lines 108-113 applied to the argument of line 119.
\<close>

definition task_offset :: "'f Config \<Rightarrow> Rectangle \<Rightarrow> Rectangle \<Rightarrow> Point" where
  "task_offset cfg imgSize wmSize = watermarkOffset (paramWatermark cfg) imgSize wmSize"

subsection \<open>The batch: main (lines 33-129)\<close>

text \<open>
  What a completed run reports and leaves behind: the number printed by line 124, the
  files written and the notices printed. The elapsed time is not modelled.
\<close>

record BatchResult =
  count :: nat
  outputs :: "(string \<times> bytes) list"
  notices :: "string list"

datatype Outcome = Fatal fatal | Exit1 | Done BatchResult

text \<open>
  Lines 89-121: one goroutine per entry, and \<^verbatim>\<open>wg.Wait()\<close>. A task that reaches
  \<^verbatim>\<open>log.Fatalf\<close> ends the process; the deferred \<^verbatim>\<open>wg.Done()\<close> does not run, and line
  124 is never reached. The tasks share nothing they write, so the files and notices of
  a run that completes do not depend on how the goroutines are scheduled; they are
  collected in listing order. When several tasks fail, the scheduler decides which one
  ends the process; the model takes the first in listing order, and the theorems below
  only say that the run ended with a fatal exit, not with which one.
\<close>

fun run_tasks :: "(string \<Rightarrow> TaskResult) \<Rightarrow> string list \<Rightarrow> fatal + ((string \<times> bytes) list \<times> string list)" where
  "run_tasks t [] = Inr ([], [])"
| "run_tasks t (file # files) =
     (case t file of
        TaskFatal e \<Rightarrow> Inl e
      | Skipped n \<Rightarrow>
          (case run_tasks t files of
             Inl e \<Rightarrow> Inl e
           | Inr (outs, ns) \<Rightarrow> Inr (outs, n # ns))
      | Saved fpath data \<Rightarrow>
          (case run_tasks t files of
             Inl e \<Rightarrow> Inl e
           | Inr (outs, ns) \<Rightarrow> Inr ((fpath, data) # outs, ns)))"

text \<open>
  Lines 53-80: the checks before any work. \<open>None\<close> means that the run goes on. The
  \<^verbatim>\<open>os.Mkdir\<close> of line 79, whose result the program ignores, is left out.
\<close>

definition preflight :: "'f World \<Rightarrow> 'f Config \<Rightarrow> Outcome option" where
  "preflight w cfg =
     (if Stat w (paramWatermark cfg) = StatNotExist then
        Some (Fatal (WatermarkNotExist (paramWatermark cfg)))
      else if \<not> HasSuffix (paramWatermark cfg) ''.png'' then
        Some (Fatal (WatermarkNotPNG (paramWatermark cfg)))
      else if Stat w (paramSourceDir cfg) = StatNotExist then
        Some (Fatal (SourceDirNotExist (paramSourceDir cfg)))
      else if Stat w (paramTargetDir cfg) = StatOK \<and> \<not> paramForce cfg then Some Exit1
      else None)"

text \<open>
  Lines 83-124: the watermark, the mask, the listing, the tasks and the summary, which
  prints \<^verbatim>\<open>len(files)\<close>.
\<close>

definition batch :: "'f World \<Rightarrow> 'f Config \<Rightarrow> Outcome" where
  "batch w cfg =
     (case openImage w (paramWatermark cfg) ''png'' of
        Inl e \<Rightarrow> Fatal e
      | Inr watermark \<Rightarrow>
          (let opacityMask = OpacityMask (paramOpacity cfg) in
           case getFiles w (paramSourceDir cfg) of
             Inl e \<Rightarrow> Fatal e
           | Inr files \<Rightarrow>
               (case run_tasks (go_task w cfg watermark opacityMask) files of
                  Inl e \<Rightarrow> Fatal e
                | Inr (outs, ns) \<Rightarrow>
                    Done \<lparr>count = length files, outputs = outs, notices = ns\<rparr>)))"

text \<open>\<open>main\<close>, without the banner and the final \<^verbatim>\<open>Scanln\<close>.\<close>

definition main :: "'f World \<Rightarrow> 'f Config \<Rightarrow> Outcome" where
  "main w cfg = (case preflight w cfg of Some out \<Rightarrow> out | None \<Rightarrow> batch w cfg)"

subsection \<open>A small world to run the program in\<close>

text \<open>
  The default flags, and a world with a white watermark of 2 by 2 pixels and a source
  directory of two entries: a black photo of 2 by 5 pixels and a text file. The resizer
  of this world samples the nearest pixel and keeps the aspect ratio; its encoder writes
  the red and the alpha channel of every pixel, row by row.
\<close>

definition default_flags :: "real Config" where
  "default_flags =
     \<lparr>paramOpacity = 70, paramLocation = ''right'', paramScale = 0.2,
      paramWatermark = ''watermark.png'', paramSourceDir = ''photos'',
      paramTargetDir = ''watermarked'', paramForce = False\<rparr>"

definition Rect :: "int \<Rightarrow> int \<Rightarrow> int \<Rightarrow> int \<Rightarrow> Rectangle" where
  "Rect x0 y0 x1 y1 = \<lparr>Min_pt = (x0, y0), Max_pt = (x1, y1)\<rparr>"

definition grey :: "8 word \<Rightarrow> 8 word \<Rightarrow> RGBA" where
  "grey v a = \<lparr>cR = v, cG = v, cB = v, cA = a\<rparr>"

definition small_watermark :: PixelBuffer where
  "small_watermark = \<lparr>Bounds = Rect 0 0 2 2, Pix = (\<lambda>p. grey 255 255)\<rparr>"

definition small_photo :: PixelBuffer where
  "small_photo = \<lparr>Bounds = Rect 0 0 2 5, Pix = (\<lambda>p. grey 0 255)\<rparr>"

definition nearest :: "nat \<Rightarrow> nat \<Rightarrow> PixelBuffer \<Rightarrow> PixelBuffer" where
  "nearest width height img =
     (let h = int height;
          w = (if width = 0 then h * Rect_Dx (Bounds img) div Rect_Dy (Bounds img) else int width)
      in \<lparr>Bounds = Rect 0 0 w h,
          Pix = (\<lambda>p. Pix img (fst p * Rect_Dx (Bounds img) div w, snd p * Rect_Dy (Bounds img) div h))\<rparr>)"

definition red_alpha_bytes :: "PixelBuffer \<Rightarrow> bytes" where
  "red_alpha_bytes img = concat (map (\<lambda>p. [cR (Pix img p), cA (Pix img p)]) (points (Bounds img)))"

definition small_world :: "real World" where
  "small_world =
     \<lparr>Stat = (\<lambda>p. if p = ''watermark.png'' \<or> p = ''photos'' then StatOK else StatNotExist),
      Open = (\<lambda>p. if p = ''watermark.png'' then Inr [1]
                   else if p = ''photos/a.jpg'' then Inr [2]
                   else Inl ''no such file''),
      jpeg_Decode = (\<lambda>b. if b = [2] then Inr small_photo else Inl ''not a JPEG''),
      png_Decode = (\<lambda>b. if b = [1] then Inr small_watermark else Inl ''not a PNG''),
      ReadDir = (\<lambda>d. if d = ''photos'' then Inr [''a.jpg'', ''notes.txt''] else Inl ''no such directory''),
      Create = (\<lambda>p. Inr ()),
      jpeg_Encode = (\<lambda>img q. Inr (red_alpha_bytes img)),
      path_Join = (\<lambda>d n. d @ ''/'' @ n),
      resize_Resize = nearest,
      scaled_height = (\<lambda>s dy. nat \<lfloor>s * real_of_int dy\<rfloor>)\<rparr>"

text \<open>The same world with a directory that also lists a photo that cannot be opened.\<close>

definition broken_world :: "real World" where
  "broken_world =
     small_world\<lparr>ReadDir := (\<lambda>d. if d = ''photos'' then Inr [''a.jpg'', ''b.jpeg''] else Inl ''no such directory'')\<rparr>"

text \<open>
  Four more worlds, each with one failure: the directory cannot be read, the photo
  cannot be decoded, the output file cannot be created, the output cannot be encoded.
\<close>

definition unreadable_world :: "real World" where
  "unreadable_world = small_world\<lparr>ReadDir := (\<lambda>d. Inl ''permission denied'')\<rparr>"

definition undecodable_world :: "real World" where
  "undecodable_world = small_world\<lparr>jpeg_Decode := (\<lambda>b. Inl ''invalid JPEG format'')\<rparr>"

definition readonly_world :: "real World" where
  "readonly_world = small_world\<lparr>Create := (\<lambda>p. Inl ''permission denied'')\<rparr>"

definition unencodable_world :: "real World" where
  "unencodable_world = small_world\<lparr>jpeg_Encode := (\<lambda>img q. Inl ''short write'')\<rparr>"

text \<open>A watermark of one pixel that is white and fully transparent.\<close>

definition clear_watermark :: PixelBuffer where
  "clear_watermark = \<lparr>Bounds = Rect 0 0 1 1, Pix = (\<lambda>p. grey 255 0)\<rparr>"

section \<open>The opacity mask\<close>

lemma uint_OpacityMask_of_int:
  assumes "0 \<le> n" "n \<le> 100"
  shows "uint (OpacityMask (word_of_int n)) = (n * 255) mod 256"
proof -
  have "n * 255 < 2 ^ 64" using assms by simp
  then have "uint (word_of_int n * 255 :: 64 word) = n * 255"
    using assms by (simp add: uint_word_ariths uint_word_of_int)
  then show ?thesis
    by (simp add: OpacityMask_def unsigned_ucast_eq take_bit_eq_mod)
qed

lemma uint_OpacityMask:
  assumes "0 \<le> sint p" "sint p \<le> 100"
  shows "uint (OpacityMask p) = (sint p * 255) mod 256"
  using uint_OpacityMask_of_int [OF assms] by simp

lemma wrap_255:
  assumes "0 \<le> (n::int)" "n \<le> 100"
  shows "(n * 255) mod 256 = (if n = 0 then 0 else 256 - n)"
proof (cases "n = 0")
  case True
  then show ?thesis by simp
next
  case False
  have "n * 255 = (256 - n) + 256 * (n - 1)" by simp
  then have "(n * 255) mod 256 = (256 - n) mod 256"
    by (simp only: mod_mult_self2)
  also have "\<dots> = 256 - n"
    by (rule mod_pos_pos_trivial) (use assms False in simp_all)
  finally show ?thesis using False by simp
qed

text \<open>
  C4. For an opacity \<open>p\<close> between 0 and 100 (the signed value of the \<^verbatim>\<open>int\<close>), the alpha
  of the mask is \<open>(p * 255) mod 256\<close>: 0 for \<open>p = 0\<close> and \<open>256 - p\<close> for \<open>p\<close> from 1 to 100.
  So a larger percentage between 1 and 100 gives a strictly smaller alpha.
\<close>

theorem OpacityMask_wraps:
  assumes "0 \<le> sint p" "sint p \<le> 100"
  shows "uint (OpacityMask p) = (sint p * 255) mod 256 \<and>
         uint (OpacityMask p) = (if sint p = 0 then 0 else 256 - sint p) \<and>
         (\<forall>q. 1 \<le> sint q \<and> sint q < sint p \<longrightarrow> OpacityMask p < OpacityMask q)"
proof -
  have a: "uint (OpacityMask p) = (sint p * 255) mod 256"
    using assms by (rule uint_OpacityMask)
  have b: "uint (OpacityMask p) = (if sint p = 0 then 0 else 256 - sint p)"
    using a wrap_255 [OF assms] by simp
  have c: "OpacityMask p < OpacityMask q" if q: "1 \<le> sint q" "sint q < sint p" for q
  proof -
    have "uint (OpacityMask q) = 256 - sint q"
      using uint_OpacityMask [of q] wrap_255 [of "sint q"] q assms by simp
    moreover have "uint (OpacityMask p) = 256 - sint p"
      using b q by simp
    ultimately show ?thesis using q by (simp add: word_less_def)
  qed
  from a b c show ?thesis by blast
qed

theorem OpacityMask_wraps_witness:
  "uint (OpacityMask 70) = 186 \<and> OpacityMask 70 < OpacityMask 69"
proof -
  have "(0::int) \<le> sint (70 :: 64 word)" "sint (70 :: 64 word) \<le> 100"
    "sint (69 :: 64 word) = 69" "sint (70 :: 64 word) = 70"
    by simp_all
  then show ?thesis using OpacityMask_wraps [of 70] by simp
qed

text \<open>
  C3. The claim asks for \<open>round(p * 255 / 100)\<close>, which is 255 at the opacity 100 and
  179 (or 178) at the default 70. The program builds 156 and 186.
\<close>

theorem OpacityMask_not_scaled:
  "OpacityMask 100 = 156 \<and> OpacityMask 100 \<noteq> 255 \<and>
   OpacityMask 70 = 186 \<and> OpacityMask 70 \<noteq> 179 \<and> OpacityMask 70 \<noteq> 178"
  by (simp add: OpacityMask_def)

section \<open>Compositing\<close>

lemma set_points: "set (points r) = {p. Point_In p r}"
  by (auto simp: points_def Point_In_def)

lemma points_product:
  "points r =
   map prod.swap (List.product [snd (Min_pt r) .. snd (Max_pt r) - 1] [fst (Min_pt r) .. fst (Max_pt r) - 1])"
  by (simp add: points_def product_concat_map map_concat comp_def)

lemma distinct_points: "distinct (points r)"
  unfolding points_product
  by (simp add: distinct_map distinct_product)

lemma Point_In_Intersect:
  "Point_In p (Rect_Intersect r s) \<longleftrightarrow> Point_In p r \<and> Point_In p s"
  by (auto simp: Rect_Intersect_def Point_In_def Rect_Empty_def ZR_def Let_def)

lemma Point_In_Add:
  "Point_In p (Rect_Add r d) \<longleftrightarrow> Point_In (Point_Sub p d) r"
  by (auto simp: Rect_Add_def Point_In_def Point_Add_def Point_Sub_def)

text \<open>
  A loop over distinct points of the buffer never fails, and changes the points of the
  list and no other.
\<close>

lemma draw_loop_result:
  assumes "\<forall>p \<in> set ps. Point_In p (Bounds buf)" "distinct ps"
  shows "draw_loop f ps buf =
         Inr (buf\<lparr>Pix := (\<lambda>p. if p \<in> set ps then f p (Pix buf p) else Pix buf p)\<rparr>)"
  using assms
proof (induction ps arbitrary: buf)
  case Nil
  then show ?case by simp
next
  case (Cons q qs)
  let ?buf' = "buf\<lparr>Pix := (Pix buf)(q := f q (Pix buf q))\<rparr>"
  have step: "set_pixel buf q (f q (Pix buf q)) = Inr ?buf'"
    using Cons.prems by (simp add: set_pixel_def)
  have "draw_loop f qs ?buf' =
        Inr (?buf'\<lparr>Pix := (\<lambda>p. if p \<in> set qs then f p (Pix ?buf' p) else Pix ?buf' p)\<rparr>)"
    using Cons.prems by (intro Cons.IH) simp_all
  moreover have "(\<lambda>p. if p \<in> set qs then f p (Pix ?buf' p) else Pix ?buf' p) =
                 (\<lambda>p. if p \<in> set (q # qs) then f p (Pix buf p) else Pix buf p)"
    using Cons.prems by (auto simp: fun_eq_iff)
  ultimately show ?case using step by simp
qed

lemma copy_base_result:
  "copy_base (NewRGBA (Bounds base)) base =
   Inr \<lparr>Bounds = Bounds base,
        Pix = (\<lambda>p. if Point_In p (Bounds base) then Pix base p else transparent)\<rparr>"
  unfolding copy_base_def
  by (subst draw_loop_result)
     (simp_all add: set_points distinct_points Point_In_Intersect NewRGBA_def fun_eq_iff)

lemma draw_watermark_result:
  "draw_watermark canvas wm m d =
   Inr (canvas\<lparr>Pix := (\<lambda>p. if Point_In p (Bounds canvas) \<and> Point_In (Point_Sub p d) (Bounds wm)
                          then over m (Pix wm (Point_Sub p d)) (Pix canvas p)
                          else Pix canvas p)\<rparr>)"
  unfolding draw_watermark_def
  by (subst draw_loop_result)
     (auto simp add: set_points distinct_points Point_In_Intersect Point_In_Add fun_eq_iff
       intro!: arg_cong [where f = "\<lambda>g. canvas\<lparr>Pix := g\<rparr>"])

lemma compose_result:
  "compose base wm m d =
   Inr \<lparr>Bounds = Bounds base,
        Pix = (\<lambda>p. if Point_In p (Bounds base)
                   then (if Point_In (Point_Sub p d) (Bounds wm)
                         then over m (Pix wm (Point_Sub p d)) (Pix base p)
                         else Pix base p)
                   else transparent)\<rparr>"
  by (simp add: compose_def copy_base_result draw_watermark_result fun_eq_iff)

lemma blend_channel_0: "blend_channel s 0 d = d"
  by (simp add: blend_channel_def)

lemma over_transparent: "cA s = 0 \<Longrightarrow> over m s d = d"
  by (simp add: over_def effective_alpha_def blend_channel_0)




text \<open>
  C7. When the alpha of the watermark is 0 at every pixel of its bounds, the drawing of
  the watermark returns the canvas it was given, whatever the canvas, the mask and the
  offset, and the composited buffer has the bounds of the photo and reads as the photo at
  every point.
\<close>

theorem transparent_watermark_keeps_base:
  assumes "\<forall>q. Point_In q (Bounds wm) \<longrightarrow> cA (Pix wm q) = 0"
  shows "draw_watermark canvas wm m d = Inr canvas \<and>
         (\<exists>out. compose base wm m d = Inr out \<and> Bounds out = Bounds base \<and>
            (\<forall>p. At out p = At base p))"
proof -
  have same: "over m (Pix wm (Point_Sub p d)) c = c" if "Point_In (Point_Sub p d) (Bounds wm)" for p c
  proof (rule over_transparent)
    show "cA (Pix wm (Point_Sub p d)) = 0" using assms that by blast
  qed
  have "(\<lambda>p. if Point_In p (Bounds canvas) \<and> Point_In (Point_Sub p d) (Bounds wm)
              then over m (Pix wm (Point_Sub p d)) (Pix canvas p) else Pix canvas p) = Pix canvas"
    using same by (auto simp: fun_eq_iff)
  then have "draw_watermark canvas wm m d = Inr canvas"
    by (simp add: draw_watermark_result)
  moreover have "\<exists>out. compose base wm m d = Inr out \<and> Bounds out = Bounds base \<and>
            (\<forall>p. At out p = At base p)"
    using same by (simp add: compose_result At_def)
  ultimately show ?thesis by simp
qed

theorem transparent_watermark_keeps_base_witness:
  "draw_watermark small_photo clear_watermark 186 (1, 4) = Inr small_photo \<and>
   (\<exists>out. compose small_photo clear_watermark 186 (1, 4) = Inr out \<and>
      Bounds out = Bounds small_photo \<and> (\<forall>p. At out p = At small_photo p))"
proof -
  have "\<forall>q. Point_In q (Bounds clear_watermark) \<longrightarrow> cA (Pix clear_watermark q) = 0"
    by (simp add: clear_watermark_def grey_def)
  then show ?thesis by (rule transparent_watermark_keeps_base)
qed

section \<open>The tasks and the batch\<close>


lemma run_tasks_Fatal:
  "name \<in> set files \<Longrightarrow> t name = TaskFatal e \<Longrightarrow> \<exists>e'. run_tasks t files = Inl e'"
proof (induction files)
  case Nil
  then show ?case by simp
next
  case (Cons f fs)
  show ?case
  proof (cases "f = name")
    case True
    with Cons.prems show ?thesis by simp
  next
    case False
    with Cons obtain e' where "run_tasks t fs = Inl e'" by auto
    then show ?thesis by (simp split: TaskResult.splits)
  qed
qed

text \<open>
  The task hands to the compositing step the offset \<open>task_offset\<close>, which is computed
  from the path of the watermark.
\<close>

lemma go_task_offset:
  "go_task w cfg wm m name =
     (if \<not> HasSuffix name ''.jpg'' \<and> \<not> HasSuffix name ''.jpeg'' then Skipped (skip_notice name)
      else case openImage w (path_Join w (paramSourceDir cfg) name) ''jpeg'' of
        Inl e \<Rightarrow> TaskFatal e
      | Inr srcImage \<Rightarrow>
          (let scaledWatermark =
                 resize_Resize w 0 (scaled_height w (paramScale cfg) (Rect_Dy (Bounds srcImage))) wm
           in case compose srcImage scaledWatermark m
                     (task_offset cfg (Bounds srcImage) (Bounds scaledWatermark)) of
                Inl e \<Rightarrow> TaskFatal (Panic e)
              | Inr canvas \<Rightarrow>
                  (case saveImage w canvas (paramTargetDir cfg) name of
                     Inl e \<Rightarrow> TaskFatal e
                   | Inr (fpath, data) \<Rightarrow> Saved fpath data)))"
  unfolding go_task_def task_def process_photo_def task_offset_def Let_def
  by (simp split: sum.splits)

lemma Rect_sel: "Min_pt (Rect a b c d) = (a, b)" "Max_pt (Rect a b c d) = (c, d)"
  by (simp_all add: Rect_def)

text \<open>
  C1. With the flags \<^verbatim>\<open>-location right\<close> and \<^verbatim>\<open>-location left\<close>, a photo of 100 by 200
  pixels and a resized watermark of 40 by 20, the claim asks for the offsets (60, 180) and
  (0, 180). The task computes (0, 0) for both: the string it compares is the path of the
  watermark.
\<close>

theorem location_right_left_ignored:
  "task_offset (default_flags\<lparr>paramLocation := ''right''\<rparr>) (Rect 0 0 100 200) (Rect 0 0 40 20) = (0, 0) \<and>
   task_offset (default_flags\<lparr>paramLocation := ''left''\<rparr>) (Rect 0 0 100 200) (Rect 0 0 40 20) = (0, 0) \<and>
   watermarkOffset ''right'' (Rect 0 0 100 200) (Rect 0 0 40 20) = (60, 180) \<and>
   watermarkOffset ''left'' (Rect 0 0 100 200) (Rect 0 0 40 20) = (0, 180)"
  by (simp add: task_offset_def watermarkOffset_def default_flags_def Rect_sel)

lemma default_flags_path:
  "paramWatermark default_flags \<noteq> ''left''" "paramWatermark default_flags \<noteq> ''right''"
  by (simp_all add: default_flags_def)

text \<open>
  C2. The flag \<^verbatim>\<open>-location\<close> does not reach the tasks. Two runs whose flags differ only
  in it compute the same offset for every photo and watermark size, start the same tasks
  and end the same way. The string compared with "left" and "right" is the path of the
  watermark: unless that path is one of the two words, the offset is (0, 0).
\<close>

theorem location_flag_unused:
  "task_offset (cfg\<lparr>paramLocation := l1\<rparr>) imgSize wmSize =
     task_offset (cfg\<lparr>paramLocation := l2\<rparr>) imgSize wmSize \<and>
   go_task w (cfg\<lparr>paramLocation := l1\<rparr>) = go_task w (cfg\<lparr>paramLocation := l2\<rparr>) \<and>
   main w (cfg\<lparr>paramLocation := l1\<rparr>) = main w (cfg\<lparr>paramLocation := l2\<rparr>) \<and>
   task_offset cfg imgSize wmSize = watermarkOffset (paramWatermark cfg) imgSize wmSize \<and>
   (paramWatermark cfg \<noteq> ''left'' \<and> paramWatermark cfg \<noteq> ''right'' \<longrightarrow>
      task_offset cfg imgSize wmSize = (0, 0))"
proof -
  have g: "go_task w (cfg\<lparr>paramLocation := l\<rparr>) = go_task w cfg" for l
    by (simp add: go_task_def fun_eq_iff)
  have p: "preflight w (cfg\<lparr>paramLocation := l\<rparr>) = preflight w cfg" for l
    by (simp add: preflight_def)
  have b: "batch w (cfg\<lparr>paramLocation := l\<rparr>) = batch w cfg" for l
    by (simp add: batch_def g Let_def split: sum.splits)
  have "main w (cfg\<lparr>paramLocation := l\<rparr>) = main w cfg" for l
    by (simp add: main_def p b split: option.splits)
  then show ?thesis
    by (simp add: g task_offset_def watermarkOffset_def)
qed

theorem location_flag_unused_witness:
  "task_offset (default_flags\<lparr>paramLocation := ''left''\<rparr>) (Rect 0 0 2 5) (Rect 0 0 1 1) =
     task_offset (default_flags\<lparr>paramLocation := ''right''\<rparr>) (Rect 0 0 2 5) (Rect 0 0 1 1) \<and>
   main small_world (default_flags\<lparr>paramLocation := ''left''\<rparr>) =
     main small_world (default_flags\<lparr>paramLocation := ''right''\<rparr>) \<and>
   task_offset default_flags (Rect 0 0 2 5) (Rect 0 0 1 1) = (0, 0)"
  using location_flag_unused [where cfg = default_flags and ?l1.0 = "''left''" and ?l2.0 = "''right''"
      and imgSize = "Rect 0 0 2 5" and wmSize = "Rect 0 0 1 1" and w = small_world]
    default_flags_path
  by blast



section \<open>Fatal exits and the summary\<close>

lemma preflight_not_Done: "preflight w cfg \<noteq> Some (Done r)"
  by (simp add: preflight_def)

lemma main_not_Done: "batch w cfg = Fatal e \<Longrightarrow> main w cfg \<noteq> Done r"
  using preflight_not_Done [of w cfg r]
  by (auto simp add: main_def split: option.splits)

lemma batch_task_Fatal:
  assumes "openImage w (paramWatermark cfg) ''png'' = Inr wm"
    and "getFiles w (paramSourceDir cfg) = Inr files"
    and "name \<in> set files"
    and "go_task w cfg wm (OpacityMask (paramOpacity cfg)) name = TaskFatal e"
  shows "\<exists>e'. batch w cfg = Fatal e'"
proof -
  obtain e' where "run_tasks (go_task w cfg wm (OpacityMask (paramOpacity cfg))) files = Inl e'"
    using run_tasks_Fatal [of name files "go_task w cfg wm (OpacityMask (paramOpacity cfg))" e]
      assms(3,4) by blast
  then show ?thesis using assms(1,2) by (simp add: batch_def)
qed

lemma batch_getFiles_Fatal:
  "getFiles w (paramSourceDir cfg) = Inl e \<Longrightarrow> \<exists>e'. batch w cfg = Fatal e'"
  by (simp add: batch_def Let_def split: sum.splits)

lemma go_task_open_Fatal:
  "HasSuffix name ''.jpg'' \<or> HasSuffix name ''.jpeg'' \<Longrightarrow>
   openImage w (path_Join w (paramSourceDir cfg) name) ''jpeg'' = Inl e \<Longrightarrow>
   go_task w cfg wm m name = TaskFatal e"
  by (auto simp add: go_task_offset)

lemma go_task_save_Fatal:
  "HasSuffix name ''.jpg'' \<or> HasSuffix name ''.jpeg'' \<Longrightarrow>
   openImage w (path_Join w (paramSourceDir cfg) name) ''jpeg'' = Inr srcImage \<Longrightarrow>
   scaled = resize_Resize w 0 (scaled_height w (paramScale cfg) (Rect_Dy (Bounds srcImage))) wm \<Longrightarrow>
   compose srcImage scaled m (task_offset cfg (Bounds srcImage) (Bounds scaled)) = Inr canvas \<Longrightarrow>
   saveImage w canvas (paramTargetDir cfg) name = Inl e \<Longrightarrow>
   go_task w cfg wm m name = TaskFatal e"
  by (auto simp add: go_task_offset Let_def)

lemma small_world_sel:
  "Stat small_world p = (if p = ''watermark.png'' \<or> p = ''photos'' then StatOK else StatNotExist)"
  "Open small_world p = (if p = ''watermark.png'' then Inr [1]
                   else if p = ''photos/a.jpg'' then Inr [2]
                   else Inl ''no such file'')"
  "jpeg_Decode small_world b = (if b = [2] then Inr small_photo else Inl ''not a JPEG'')"
  "png_Decode small_world b = (if b = [1] then Inr small_watermark else Inl ''not a PNG'')"
  "ReadDir small_world d = (if d = ''photos'' then Inr [''a.jpg'', ''notes.txt''] else Inl ''no such directory'')"
  "Create small_world p = Inr ()"
  "jpeg_Encode small_world img q = Inr (red_alpha_bytes img)"
  "path_Join small_world d n = d @ ''/'' @ n"
  "resize_Resize small_world = nearest"
  "scaled_height small_world s dy = nat \<lfloor>s * real_of_int dy\<rfloor>"
  by (simp_all add: small_world_def)

lemma default_flags_sel:
  "paramOpacity default_flags = 70"
  "paramLocation default_flags = ''right''"
  "paramScale default_flags = 0.2"
  "paramWatermark default_flags = ''watermark.png''"
  "paramSourceDir default_flags = ''photos''"
  "paramTargetDir default_flags = ''watermarked''"
  "paramForce default_flags = False"
  by (simp_all add: default_flags_def)

text \<open>
  C9. Every failure ends the process with a fatal exit. A failing \<^verbatim>\<open>ReadDir\<close>,
  \<^verbatim>\<open>Open\<close>, \<^verbatim>\<open>jpeg.Decode\<close>, \<^verbatim>\<open>Create\<close> or \<^verbatim>\<open>jpeg.Encode\<close> makes \<open>getFiles\<close>,
  \<open>openImage\<close> or \<open>saveImage\<close> exit; an eligible entry whose photo cannot be opened or
  decoded, or whose output cannot be saved, makes its task exit; one task that exits makes
  the batch exit, whatever the other tasks do; and a batch that exits, for a task or for
  the listing, leaves \<open>main\<close> without a result to report.
\<close>

theorem failure_is_fatal:
  "(ReadDir w dir = Inl err \<longrightarrow> getFiles w dir = Inl (ReadDirFailed err)) \<and>
   (Open w fname = Inl err \<longrightarrow> openImage w fname ftype = Inl (OpenFailed err)) \<and>
   (Open w fname = Inr inputfile \<and> jpeg_Decode w inputfile = Inl err \<longrightarrow>
      openImage w fname ''jpeg'' = Inl (DecodeJpegFailed err)) \<and>
   (Create w (path_Join w pname name) = Inl err \<longrightarrow>
      saveImage w img pname name = Inl (CreateFailed err)) \<and>
   (Create w (path_Join w pname name) = Inr u \<and> jpeg_Encode w img 95 = Inl err \<longrightarrow>
      saveImage w img pname name = Inl (EncodeFailed err)) \<and>
   ((HasSuffix name ''.jpg'' \<or> HasSuffix name ''.jpeg'') \<and>
      openImage w (path_Join w (paramSourceDir cfg) name) ''jpeg'' = Inl e \<longrightarrow>
      go_task w cfg wm m name = TaskFatal e) \<and>
   ((HasSuffix name ''.jpg'' \<or> HasSuffix name ''.jpeg'') \<and>
      openImage w (path_Join w (paramSourceDir cfg) name) ''jpeg'' = Inr srcImage \<and>
      scaled = resize_Resize w 0 (scaled_height w (paramScale cfg) (Rect_Dy (Bounds srcImage))) wm \<and>
      compose srcImage scaled m (task_offset cfg (Bounds srcImage) (Bounds scaled)) = Inr canvas \<and>
      saveImage w canvas (paramTargetDir cfg) name = Inl e \<longrightarrow>
      go_task w cfg wm m name = TaskFatal e) \<and>
   (name \<in> set files \<and> t name = TaskFatal e \<longrightarrow> (\<exists>e'. run_tasks t files = Inl e')) \<and>
   (getFiles w (paramSourceDir cfg) = Inl e \<longrightarrow> (\<exists>e'. batch w cfg = Fatal e')) \<and>
   (openImage w (paramWatermark cfg) ''png'' = Inr wm \<and>
      getFiles w (paramSourceDir cfg) = Inr files \<and> name \<in> set files \<and>
      go_task w cfg wm (OpacityMask (paramOpacity cfg)) name = TaskFatal e \<longrightarrow>
      (\<exists>e'. batch w cfg = Fatal e')) \<and>
   ((\<exists>e'. batch w cfg = Fatal e') \<longrightarrow> (\<forall>r. main w cfg \<noteq> Done r))"
proof -
  have 1: "ReadDir w dir = Inl err \<longrightarrow> getFiles w dir = Inl (ReadDirFailed err)"
    by (simp add: getFiles_def)
  have 2: "Open w fname = Inl err \<longrightarrow> openImage w fname ftype = Inl (OpenFailed err)"
    by (simp add: openImage_def)
  have 3: "Open w fname = Inr inputfile \<and> jpeg_Decode w inputfile = Inl err \<longrightarrow>
      openImage w fname ''jpeg'' = Inl (DecodeJpegFailed err)"
    by (simp add: openImage_def)
  have 4: "Create w (path_Join w pname name) = Inl err \<longrightarrow>
      saveImage w img pname name = Inl (CreateFailed err)"
    by (simp add: saveImage_def)
  have 5: "Create w (path_Join w pname name) = Inr u \<and> jpeg_Encode w img 95 = Inl err \<longrightarrow>
      saveImage w img pname name = Inl (EncodeFailed err)"
    by (simp add: saveImage_def)
  have 6: "(HasSuffix name ''.jpg'' \<or> HasSuffix name ''.jpeg'') \<and>
      openImage w (path_Join w (paramSourceDir cfg) name) ''jpeg'' = Inl e \<longrightarrow>
      go_task w cfg wm m name = TaskFatal e"
    using go_task_open_Fatal [of name w cfg e wm m] by blast
  have 7: "(HasSuffix name ''.jpg'' \<or> HasSuffix name ''.jpeg'') \<and>
      openImage w (path_Join w (paramSourceDir cfg) name) ''jpeg'' = Inr srcImage \<and>
      scaled = resize_Resize w 0 (scaled_height w (paramScale cfg) (Rect_Dy (Bounds srcImage))) wm \<and>
      compose srcImage scaled m (task_offset cfg (Bounds srcImage) (Bounds scaled)) = Inr canvas \<and>
      saveImage w canvas (paramTargetDir cfg) name = Inl e \<longrightarrow>
      go_task w cfg wm m name = TaskFatal e"
    using go_task_save_Fatal [of name w cfg srcImage scaled wm m canvas e] by blast
  have 8: "name \<in> set files \<and> t name = TaskFatal e \<longrightarrow> (\<exists>e'. run_tasks t files = Inl e')"
    using run_tasks_Fatal [of name files t e] by blast
  have 9: "getFiles w (paramSourceDir cfg) = Inl e \<longrightarrow> (\<exists>e'. batch w cfg = Fatal e')"
    using batch_getFiles_Fatal [of w cfg e] by blast
  have 10: "openImage w (paramWatermark cfg) ''png'' = Inr wm \<and>
      getFiles w (paramSourceDir cfg) = Inr files \<and> name \<in> set files \<and>
      go_task w cfg wm (OpacityMask (paramOpacity cfg)) name = TaskFatal e \<longrightarrow>
      (\<exists>e'. batch w cfg = Fatal e')"
    using batch_task_Fatal [of w cfg wm files name e] by blast
  have 11: "(\<exists>e'. batch w cfg = Fatal e') \<longrightarrow> (\<forall>r. main w cfg \<noteq> Done r)"
    using main_not_Done [of w cfg] by blast
  from 1 2 3 4 5 6 7 8 9 10 11 show ?thesis by (intro conjI)
qed

theorem failure_is_fatal_witness:
  "(\<forall>r. main unreadable_world default_flags \<noteq> Done r) \<and>
   (\<forall>r. main broken_world default_flags \<noteq> Done r) \<and>
   (\<forall>r. main undecodable_world default_flags \<noteq> Done r) \<and>
   (\<forall>r. main readonly_world default_flags \<noteq> Done r) \<and>
   (\<forall>r. main unencodable_world default_flags \<noteq> Done r)"
proof -
  have "\<forall>r. main unreadable_world default_flags \<noteq> Done r"
  proof -
    obtain canvas where
      "compose small_photo (resize_Resize unreadable_world 0 (scaled_height unreadable_world (paramScale default_flags) (Rect_Dy (Bounds small_photo))) small_watermark)
         (OpacityMask (paramOpacity default_flags))
         (task_offset default_flags (Bounds small_photo)
            (Bounds (resize_Resize unreadable_world 0 (scaled_height unreadable_world (paramScale default_flags) (Rect_Dy (Bounds small_photo))) small_watermark))) = Inr canvas"
      by (simp add: compose_result)
    moreover have "openImage unreadable_world (paramWatermark default_flags) ''png'' = Inr small_watermark"
      by (simp add: openImage_def unreadable_world_def small_world_sel default_flags_sel)
    moreover have "''a.jpg'' \<in> set [''a.jpg'', ''notes.txt'']" by simp
    moreover have "HasSuffix ''a.jpg'' ''.jpg'' \<or> HasSuffix ''a.jpg'' ''.jpeg''" by (simp add: HasSuffix_def)
    moreover have "ReadDir unreadable_world (paramSourceDir default_flags) = Inl ''permission denied''"
      by (simp add: unreadable_world_def small_world_sel default_flags_sel)
    ultimately show ?thesis
      using failure_is_fatal
        [where w = "unreadable_world"
          and cfg = "default_flags"
          and dir = "paramSourceDir default_flags"
          and err = "''permission denied''"
          and fname = "path_Join unreadable_world (paramSourceDir default_flags) ''a.jpg''"
          and ftype = "''jpeg''"
          and inputfile = "[2]"
          and pname = "paramTargetDir default_flags"
          and name = "''a.jpg''"
          and img = "canvas"
          and u = "()"
          and e = "ReadDirFailed ''permission denied''"
          and wm = "small_watermark"
          and m = "OpacityMask (paramOpacity default_flags)"
          and srcImage = "small_photo"
          and scaled = "resize_Resize unreadable_world 0 (scaled_height unreadable_world (paramScale default_flags) (Rect_Dy (Bounds small_photo))) small_watermark"
          and canvas = "canvas"
          and t = "go_task unreadable_world default_flags small_watermark (OpacityMask (paramOpacity default_flags))"
          and files = "[''a.jpg'', ''notes.txt'']"]
      by blast
  qed
  moreover
  have "\<forall>r. main broken_world default_flags \<noteq> Done r"
  proof -
    obtain canvas where
      "compose small_photo (resize_Resize broken_world 0 (scaled_height broken_world (paramScale default_flags) (Rect_Dy (Bounds small_photo))) small_watermark)
         (OpacityMask (paramOpacity default_flags))
         (task_offset default_flags (Bounds small_photo)
            (Bounds (resize_Resize broken_world 0 (scaled_height broken_world (paramScale default_flags) (Rect_Dy (Bounds small_photo))) small_watermark))) = Inr canvas"
      by (simp add: compose_result)
    moreover have "openImage broken_world (paramWatermark default_flags) ''png'' = Inr small_watermark"
      by (simp add: openImage_def broken_world_def small_world_sel default_flags_sel)
    moreover have "''b.jpeg'' \<in> set [''a.jpg'', ''b.jpeg'']" by simp
    moreover have "HasSuffix ''b.jpeg'' ''.jpg'' \<or> HasSuffix ''b.jpeg'' ''.jpeg''" by (simp add: HasSuffix_def)
    moreover have "getFiles broken_world (paramSourceDir default_flags) = Inr [''a.jpg'', ''b.jpeg'']"
      by (simp add: broken_world_def small_world_sel default_flags_sel getFiles_def)
    moreover have "Open broken_world (path_Join broken_world (paramSourceDir default_flags) ''b.jpeg'') = Inl ''no such file''"
      by (simp add: broken_world_def small_world_sel default_flags_sel)
    ultimately show ?thesis
      using failure_is_fatal
        [where w = "broken_world"
          and cfg = "default_flags"
          and dir = "paramSourceDir default_flags"
          and err = "''no such file''"
          and fname = "path_Join broken_world (paramSourceDir default_flags) ''b.jpeg''"
          and ftype = "''jpeg''"
          and inputfile = "[2]"
          and pname = "paramTargetDir default_flags"
          and name = "''b.jpeg''"
          and img = "canvas"
          and u = "()"
          and e = "OpenFailed ''no such file''"
          and wm = "small_watermark"
          and m = "OpacityMask (paramOpacity default_flags)"
          and srcImage = "small_photo"
          and scaled = "resize_Resize broken_world 0 (scaled_height broken_world (paramScale default_flags) (Rect_Dy (Bounds small_photo))) small_watermark"
          and canvas = "canvas"
          and t = "go_task broken_world default_flags small_watermark (OpacityMask (paramOpacity default_flags))"
          and files = "[''a.jpg'', ''b.jpeg'']"]
      by blast
  qed
  moreover
  have "\<forall>r. main undecodable_world default_flags \<noteq> Done r"
  proof -
    obtain canvas where
      "compose small_photo (resize_Resize undecodable_world 0 (scaled_height undecodable_world (paramScale default_flags) (Rect_Dy (Bounds small_photo))) small_watermark)
         (OpacityMask (paramOpacity default_flags))
         (task_offset default_flags (Bounds small_photo)
            (Bounds (resize_Resize undecodable_world 0 (scaled_height undecodable_world (paramScale default_flags) (Rect_Dy (Bounds small_photo))) small_watermark))) = Inr canvas"
      by (simp add: compose_result)
    moreover have "openImage undecodable_world (paramWatermark default_flags) ''png'' = Inr small_watermark"
      by (simp add: openImage_def undecodable_world_def small_world_sel default_flags_sel)
    moreover have "''a.jpg'' \<in> set [''a.jpg'', ''notes.txt'']" by simp
    moreover have "HasSuffix ''a.jpg'' ''.jpg'' \<or> HasSuffix ''a.jpg'' ''.jpeg''" by (simp add: HasSuffix_def)
    moreover have "getFiles undecodable_world (paramSourceDir default_flags) = Inr [''a.jpg'', ''notes.txt'']"
      by (simp add: undecodable_world_def small_world_sel default_flags_sel getFiles_def)
    moreover have "Open undecodable_world (path_Join undecodable_world (paramSourceDir default_flags) ''a.jpg'') = Inr [2]"
      by (simp add: undecodable_world_def small_world_sel default_flags_sel)
    moreover have "jpeg_Decode undecodable_world [2] = Inl ''invalid JPEG format''"
      by (simp add: undecodable_world_def small_world_sel default_flags_sel)
    ultimately show ?thesis
      using failure_is_fatal
        [where w = "undecodable_world"
          and cfg = "default_flags"
          and dir = "paramSourceDir default_flags"
          and err = "''invalid JPEG format''"
          and fname = "path_Join undecodable_world (paramSourceDir default_flags) ''a.jpg''"
          and ftype = "''jpeg''"
          and inputfile = "[2]"
          and pname = "paramTargetDir default_flags"
          and name = "''a.jpg''"
          and img = "canvas"
          and u = "()"
          and e = "DecodeJpegFailed ''invalid JPEG format''"
          and wm = "small_watermark"
          and m = "OpacityMask (paramOpacity default_flags)"
          and srcImage = "small_photo"
          and scaled = "resize_Resize undecodable_world 0 (scaled_height undecodable_world (paramScale default_flags) (Rect_Dy (Bounds small_photo))) small_watermark"
          and canvas = "canvas"
          and t = "go_task undecodable_world default_flags small_watermark (OpacityMask (paramOpacity default_flags))"
          and files = "[''a.jpg'', ''notes.txt'']"]
      by blast
  qed
  moreover
  have "\<forall>r. main readonly_world default_flags \<noteq> Done r"
  proof -
    obtain canvas where
      "compose small_photo (resize_Resize readonly_world 0 (scaled_height readonly_world (paramScale default_flags) (Rect_Dy (Bounds small_photo))) small_watermark)
         (OpacityMask (paramOpacity default_flags))
         (task_offset default_flags (Bounds small_photo)
            (Bounds (resize_Resize readonly_world 0 (scaled_height readonly_world (paramScale default_flags) (Rect_Dy (Bounds small_photo))) small_watermark))) = Inr canvas"
      by (simp add: compose_result)
    moreover have "openImage readonly_world (paramWatermark default_flags) ''png'' = Inr small_watermark"
      by (simp add: openImage_def readonly_world_def small_world_sel default_flags_sel)
    moreover have "''a.jpg'' \<in> set [''a.jpg'', ''notes.txt'']" by simp
    moreover have "HasSuffix ''a.jpg'' ''.jpg'' \<or> HasSuffix ''a.jpg'' ''.jpeg''" by (simp add: HasSuffix_def)
    moreover have "getFiles readonly_world (paramSourceDir default_flags) = Inr [''a.jpg'', ''notes.txt'']"
      by (simp add: readonly_world_def small_world_sel default_flags_sel getFiles_def)
    moreover have "openImage readonly_world (path_Join readonly_world (paramSourceDir default_flags) ''a.jpg'') ''jpeg'' = Inr small_photo"
      by (simp add: readonly_world_def small_world_sel default_flags_sel openImage_def)
    moreover have "Create readonly_world (path_Join readonly_world (paramTargetDir default_flags) ''a.jpg'') = Inl ''permission denied''"
      by (simp add: readonly_world_def small_world_sel default_flags_sel)
    ultimately show ?thesis
      using failure_is_fatal
        [where w = "readonly_world"
          and cfg = "default_flags"
          and dir = "paramSourceDir default_flags"
          and err = "''permission denied''"
          and fname = "path_Join readonly_world (paramSourceDir default_flags) ''a.jpg''"
          and ftype = "''jpeg''"
          and inputfile = "[2]"
          and pname = "paramTargetDir default_flags"
          and name = "''a.jpg''"
          and img = "canvas"
          and u = "()"
          and e = "CreateFailed ''permission denied''"
          and wm = "small_watermark"
          and m = "OpacityMask (paramOpacity default_flags)"
          and srcImage = "small_photo"
          and scaled = "resize_Resize readonly_world 0 (scaled_height readonly_world (paramScale default_flags) (Rect_Dy (Bounds small_photo))) small_watermark"
          and canvas = "canvas"
          and t = "go_task readonly_world default_flags small_watermark (OpacityMask (paramOpacity default_flags))"
          and files = "[''a.jpg'', ''notes.txt'']"]
      by blast
  qed
  moreover
  have "\<forall>r. main unencodable_world default_flags \<noteq> Done r"
  proof -
    obtain canvas where
      "compose small_photo (resize_Resize unencodable_world 0 (scaled_height unencodable_world (paramScale default_flags) (Rect_Dy (Bounds small_photo))) small_watermark)
         (OpacityMask (paramOpacity default_flags))
         (task_offset default_flags (Bounds small_photo)
            (Bounds (resize_Resize unencodable_world 0 (scaled_height unencodable_world (paramScale default_flags) (Rect_Dy (Bounds small_photo))) small_watermark))) = Inr canvas"
      by (simp add: compose_result)
    moreover have "openImage unencodable_world (paramWatermark default_flags) ''png'' = Inr small_watermark"
      by (simp add: openImage_def unencodable_world_def small_world_sel default_flags_sel)
    moreover have "''a.jpg'' \<in> set [''a.jpg'', ''notes.txt'']" by simp
    moreover have "HasSuffix ''a.jpg'' ''.jpg'' \<or> HasSuffix ''a.jpg'' ''.jpeg''" by (simp add: HasSuffix_def)
    moreover have "getFiles unencodable_world (paramSourceDir default_flags) = Inr [''a.jpg'', ''notes.txt'']"
      by (simp add: unencodable_world_def small_world_sel default_flags_sel getFiles_def)
    moreover have "openImage unencodable_world (path_Join unencodable_world (paramSourceDir default_flags) ''a.jpg'') ''jpeg'' = Inr small_photo"
      by (simp add: unencodable_world_def small_world_sel default_flags_sel openImage_def)
    moreover have "Create unencodable_world (path_Join unencodable_world (paramTargetDir default_flags) ''a.jpg'') = Inr ()"
      by (simp add: unencodable_world_def small_world_sel default_flags_sel)
    moreover have "jpeg_Encode unencodable_world canvas 95 = Inl ''short write''"
      by (simp add: unencodable_world_def small_world_sel default_flags_sel)
    ultimately show ?thesis
      using failure_is_fatal
        [where w = "unencodable_world"
          and cfg = "default_flags"
          and dir = "paramSourceDir default_flags"
          and err = "''short write''"
          and fname = "path_Join unencodable_world (paramSourceDir default_flags) ''a.jpg''"
          and ftype = "''jpeg''"
          and inputfile = "[2]"
          and pname = "paramTargetDir default_flags"
          and name = "''a.jpg''"
          and img = "canvas"
          and u = "()"
          and e = "EncodeFailed ''short write''"
          and wm = "small_watermark"
          and m = "OpacityMask (paramOpacity default_flags)"
          and srcImage = "small_photo"
          and scaled = "resize_Resize unencodable_world 0 (scaled_height unencodable_world (paramScale default_flags) (Rect_Dy (Bounds small_photo))) small_watermark"
          and canvas = "canvas"
          and t = "go_task unencodable_world default_flags small_watermark (OpacityMask (paramOpacity default_flags))"
          and files = "[''a.jpg'', ''notes.txt'']"]
      by blast
  qed
  ultimately show ?thesis by (intro conjI)
qed

section \<open>The summary of a run\<close>



subsection \<open>A run in the small world\<close>
















end
